theory Spec2Isabelle
  imports Main "HOL-Library.Word" "HOL-Library.Signed_Division"
begin

section \<open>The tick ledger of the concentrated-liquidity module\<close>

text \<open>
  A shallow embedding of \<^verbatim>\<open>x/concentrated-liquidity/tick.go\<close>: the keeper methods
  \<^verbatim>\<open>initOrUpdateTick\<close>, \<^verbatim>\<open>crossTick\<close>, \<^verbatim>\<open>getTickInfo\<close>, \<^verbatim>\<open>SetTickInfo\<close> and the function
  \<^verbatim>\<open>validateTickRangeIsValid\<close>. The keeper's store is passed explicitly and returned
  updated; a Go \<^verbatim>\<open>error\<close> return and a Go run-time panic are two different outcomes.
\<close>

subsection \<open>Scalars\<close>

type_synonym uint64 = "64 word"
type_synonym int64 = "64 word"  \<comment> \<open>read with \<open>sint\<close>, compared with \<open><s\<close> and \<open>\<le>s\<close>\<close>

text \<open>
  \<^verbatim>\<open>sdk.Dec\<close> is a fixed-point decimal with 18 fractional digits over a big integer. A value
  is modelled by that integer (the decimal times \<open>10^18\<close>). Addition and subtraction are
  those of the integers; the quotient multiplies by \<open>10^36\<close>, divides truncating towards
  zero, and removes 18 digits rounding half to even; a zero divisor panics. The library's
  own overflow panic (beyond 315 bits) is not part of this model.
\<close>

type_synonym dec = int

definition precisionReuse :: int where
  "precisionReuse = 10 ^ 18"

definition ZeroDec :: dec where
  "ZeroDec = 0"

definition Dec_Add :: "dec \<Rightarrow> dec \<Rightarrow> dec" where
  "Dec_Add d d2 = d + d2"

definition Dec_Sub :: "dec \<Rightarrow> dec \<Rightarrow> dec" where
  "Dec_Sub d d2 = d - d2"

definition chopPrecisionAndRound :: "int \<Rightarrow> int" where
  "chopPrecisionAndRound d =
     (let a = \<bar>d\<bar>; quo = a div precisionReuse; rem = a mod precisionReuse;
          r = (if rem = 0 then quo
               else if 2 * rem < precisionReuse then quo
               else if precisionReuse < 2 * rem then quo + 1
               else if even quo then quo else quo + 1)
      in sgn d * r)"

definition Dec_Quo :: "dec \<Rightarrow> dec \<Rightarrow> dec option" where
  "Dec_Quo d d2 =
     (if d2 = 0 then None
      else Some (chopPrecisionAndRound ((d * precisionReuse * precisionReuse) sdiv d2)))"

text \<open>
  Times are nanoseconds since the epoch, a \<^verbatim>\<open>time.Duration\<close> is a number of nanoseconds in
  the range of \<^verbatim>\<open>int64\<close>; \<^verbatim>\<open>Time.Sub\<close> saturates at the ends of that range.
\<close>

type_synonym time = int
type_synonym duration = int

definition Time_Sub :: "time \<Rightarrow> time \<Rightarrow> duration" where
  "Time_Sub t u = max (- (2 ^ 63)) (min (2 ^ 63 - 1) (t - u))"

subsection \<open>Errors and outcomes\<close>

datatype error =
    PoolNotFoundError uint64
  | TickSpacingError int64 int64 uint64
  | InvalidTickError int64 bool
  | InvalidLowerUpperTickError int64 int64
  | UnmarshalError

datatype panic = IndexOutOfRange | DivisionByZero | IntegerDivideByZero

datatype 'a result = Ok 'a | Err error | Panic panic

subsection \<open>Data model\<close>

text \<open>
  The types of package \<^verbatim>\<open>model\<close> are not among the sources; the records below carry the
  fields that \<^verbatim>\<open>tick.go\<close> reads and writes. The identifier field of a pool's incentive
  record is called \<open>PID\<close> here, since a record field name is global.
\<close>

record TickIncentivizedLiquidityRecord =
  ID :: uint64
  IncentivizedLiquidityGross :: dec
  IncentivizedLiquidityNet :: dec
  SecondsPerIncentivizedLiquidityOutside :: dec

record TickInfo =
  LiquidityGross :: dec
  LiquidityNet :: dec
  SecondsInactive :: duration
  TickIncentivizedLiquidityRecords :: "TickIncentivizedLiquidityRecord list"

record PoolIncentivizedLiquidityRecord =
  PID :: uint64
  SecondsPerIncentivizedLiquidityGlobal :: dec

record Pool =
  Id :: uint64
  TimeOfCreation :: time
  PoolIncentivizedLiquidityRecords :: "PoolIncentivizedLiquidityRecord list"

text \<open>
  The key-value store of the keeper: pools under their id, ticks under
  \<^verbatim>\<open>KeyTick(poolId, tickIndex)\<close>. A stored tick is either bytes that decode to a
  \<open>TickInfo\<close> or bytes that do not.
\<close>

datatype storedTick = Decodes TickInfo | Undecodable

record Keeper =
  pools :: "uint64 \<rightharpoonup> Pool"
  ticks :: "(uint64 \<times> int64) \<rightharpoonup> storedTick"

record Context =
  BlockTime :: time

subsection \<open>Pool access\<close>

text \<open>
  Modelled from the spec: \<^verbatim>\<open>poolExists\<close>, \<^verbatim>\<open>getPoolById\<close> and \<^verbatim>\<open>setPool\<close> are keeper methods
  that are not among the sources. Section 7 gives \<^verbatim>\<open>PoolNotFound\<close> for a pool id that has
  no registered pool, and section 4.1 makes a store write an unconditional overwrite.
\<close>

definition poolExists :: "Keeper \<Rightarrow> uint64 \<Rightarrow> bool" where
  "poolExists k poolId = (pools k poolId \<noteq> None)"

definition getPoolById :: "Keeper \<Rightarrow> uint64 \<Rightarrow> Pool result" where
  "getPoolById k poolId =
     (case pools k poolId of
        None \<Rightarrow> Err (PoolNotFoundError poolId)
      | Some pool \<Rightarrow> Ok pool)"

definition setPool :: "Keeper \<Rightarrow> Pool \<Rightarrow> Keeper result" where
  "setPool k pool = Ok (k\<lparr>pools := (pools k)(Id pool \<mapsto> pool)\<rparr>)"

subsection \<open>Reading and writing a tick\<close>

text \<open>
  The Go zero value \<^verbatim>\<open>model.TickInfo{}\<close>; an unset \<^verbatim>\<open>sdk.Dec\<close> is stored as zero.
\<close>

definition emptyTickInfo :: TickInfo where
  "emptyTickInfo = \<lparr>LiquidityGross = 0, LiquidityNet = 0, SecondsInactive = 0,
                    TickIncentivizedLiquidityRecords = []\<rparr>"

text \<open>
  \<^verbatim>\<open>osmoutils.Get\<close> reports \<open>found = false\<close> with no error for an absent key, and
  \<open>found = true\<close> with the decoder's error for bytes that do not decode.
\<close>

definition store_Get :: "Keeper \<Rightarrow> uint64 \<times> int64 \<Rightarrow> bool \<times> error option \<times> TickInfo" where
  "store_Get k key =
     (case ticks k key of
        None \<Rightarrow> (False, None, emptyTickInfo)
      | Some Undecodable \<Rightarrow> (True, Some UnmarshalError, emptyTickInfo)
      | Some (Decodes t) \<Rightarrow> (True, None, t))"

definition zeroTickInfo :: TickInfo where
  "zeroTickInfo = \<lparr>LiquidityGross = ZeroDec, LiquidityNet = ZeroDec, SecondsInactive = 0,
                   TickIncentivizedLiquidityRecords = []\<rparr>"

definition getTickInfo :: "Keeper \<Rightarrow> uint64 \<Rightarrow> int64 \<Rightarrow> TickInfo result" where
  "getTickInfo k poolId tickIndex =
     (if \<not> poolExists k poolId then Err (PoolNotFoundError poolId)
      else (case store_Get k (poolId, tickIndex) of
              (found, err, tickStruct) \<Rightarrow>
                if \<not> found then (case err of None \<Rightarrow> Ok zeroTickInfo | Some e \<Rightarrow> Err e)
                else (case err of Some e \<Rightarrow> Err e | None \<Rightarrow> Ok tickStruct)))"

definition SetTickInfo :: "Keeper \<Rightarrow> uint64 \<Rightarrow> int64 \<Rightarrow> TickInfo \<Rightarrow> Keeper" where
  "SetTickInfo k poolId tickIndex tickInfo =
     k\<lparr>ticks := (ticks k)((poolId, tickIndex) \<mapsto> Decodes tickInfo)\<rparr>"

subsection \<open>Validation of a tick range\<close>


subsection \<open>Initialising and updating a tick\<close>

text \<open>
  Modelled from the spec: \<^verbatim>\<open>math.AddLiquidity\<close> belongs to a package that is not among the
  sources. Section 4.2 describes it as an additive combinator in which adding negative
  liquidity is a subtraction.
\<close>

definition AddLiquidity :: "dec \<Rightarrow> dec \<Rightarrow> dec" where
  "AddLiquidity liquidityA liquidityB =
     (if liquidityB < 0 then Dec_Sub liquidityA \<bar>liquidityB\<bar> else Dec_Add liquidityA liquidityB)"

text \<open>The record appended for a pool incentive: the id, zero gross and net, the rest unset.\<close>

definition newTickRecord :: "PoolIncentivizedLiquidityRecord \<Rightarrow> TickIncentivizedLiquidityRecord" where
  "newTickRecord record =
     \<lparr>ID = PID record, IncentivizedLiquidityGross = ZeroDec, IncentivizedLiquidityNet = ZeroDec,
      SecondsPerIncentivizedLiquidityOutside = 0\<rparr>"

text \<open>
  The loop of lines 80 to 90. It reads \<^verbatim>\<open>tickInfo.TickIncentivizedLiquidityRecords[i]\<close> for
  every index \<open>i\<close> of the pool's list, which panics beyond the tick's list, and builds the
  local slice \<^verbatim>\<open>newTickIncentivizedLiquidityRecords\<close>; the second branch appends to the
  tick's slice, not to the local one. The tick's own slice keeps its length and elements.
\<close>

fun rebuildRecords ::
  "nat \<Rightarrow> PoolIncentivizedLiquidityRecord list \<Rightarrow> TickIncentivizedLiquidityRecord list \<Rightarrow>
   TickIncentivizedLiquidityRecord list \<Rightarrow> TickIncentivizedLiquidityRecord list result" where
  "rebuildRecords i [] tickRecords newRecords = Ok newRecords"
| "rebuildRecords i (record # rest) tickRecords newRecords =
     (if length tickRecords \<le> i then Panic IndexOutOfRange
      else if ID (tickRecords ! i) = PID record
        then rebuildRecords (Suc i) rest tickRecords (newRecords @ [tickRecords ! i])
      else rebuildRecords (Suc i) rest tickRecords (tickRecords @ [newTickRecord record]))"

text \<open>
  Lines 62 to 91. The slice built by the second branch is a local variable that is never
  assigned to the tick, so that branch leaves the tick's records as they are (or panics).
\<close>

definition reconcileRecords ::
  "PoolIncentivizedLiquidityRecord list \<Rightarrow> TickIncentivizedLiquidityRecord list \<Rightarrow>
   TickIncentivizedLiquidityRecord list result" where
  "reconcileRecords poolRecords tickRecords =
     (if length tickRecords = 0 then Ok (tickRecords @ map newTickRecord poolRecords)
      else if length poolRecords \<noteq> length tickRecords then
        (case rebuildRecords 0 poolRecords tickRecords [] of
           Ok newTickIncentivizedLiquidityRecords \<Rightarrow> Ok tickRecords
         | Err e \<Rightarrow> Err e
         | Panic p \<Rightarrow> Panic p)
      else Ok tickRecords)"

text \<open>The body of the loop of lines 94 to 105 for a record whose id matches.\<close>

definition addToRecord ::
  "dec \<Rightarrow> bool \<Rightarrow> TickIncentivizedLiquidityRecord \<Rightarrow> TickIncentivizedLiquidityRecord" where
  "addToRecord liquidityIn upper r =
     r\<lparr>IncentivizedLiquidityGross := AddLiquidity (IncentivizedLiquidityGross r) liquidityIn,
       IncentivizedLiquidityNet :=
         (if upper then Dec_Sub (IncentivizedLiquidityNet r) liquidityIn
          else Dec_Add (IncentivizedLiquidityNet r) liquidityIn)\<rparr>"

text \<open>
  Lines 94 to 105: \<open>i\<close> is the index of the first committed id that is left; the element
  at the same index of the tick's slice is read (a panic beyond its end) and written in
  place.
\<close>

fun updateCommitted ::
  "dec \<Rightarrow> bool \<Rightarrow> nat \<Rightarrow> uint64 list \<Rightarrow> TickIncentivizedLiquidityRecord list \<Rightarrow>
   TickIncentivizedLiquidityRecord list result" where
  "updateCommitted liquidityIn upper i [] tickRecords = Ok tickRecords"
| "updateCommitted liquidityIn upper i (incentiveID # rest) tickRecords =
     (if length tickRecords \<le> i then Panic IndexOutOfRange
      else if ID (tickRecords ! i) = incentiveID
        then updateCommitted liquidityIn upper (Suc i) rest
               (tickRecords[i := addToRecord liquidityIn upper (tickRecords ! i)])
      else updateCommitted liquidityIn upper (Suc i) rest tickRecords)"

text \<open>
  \<^verbatim>\<open>initOrUpdateTick\<close>. The line that \<^verbatim>\<open>fmt.Printf\<close> prints to standard output is not
  modelled. The tick is written only at the end, so an error or a panic leaves the keeper
  as it was.
\<close>

definition initOrUpdateTick ::
  "Context \<Rightarrow> Keeper \<Rightarrow> uint64 \<Rightarrow> int64 \<Rightarrow> dec \<Rightarrow> bool \<Rightarrow> uint64 list \<Rightarrow> Keeper \<times> unit result" where
  "initOrUpdateTick ctx k poolId tickIndex liquidityIn upper incentiveIDsCommittedTo =
     (if \<not> poolExists k poolId then (k, Err (PoolNotFoundError poolId))
      else case getTickInfo k poolId tickIndex of
        Err e \<Rightarrow> (k, Err e)
      | Panic p \<Rightarrow> (k, Panic p)
      | Ok tickInfo0 \<Rightarrow>
         (case getPoolById k poolId of
            Err e \<Rightarrow> (k, Err e)
          | Panic p \<Rightarrow> (k, Panic p)
          | Ok pool \<Rightarrow>
             (let tickInfo1 =
                    (if LiquidityGross tickInfo0 = ZeroDec \<and> LiquidityNet tickInfo0 = ZeroDec
                     then tickInfo0\<lparr>SecondsInactive := Time_Sub (BlockTime ctx) (TimeOfCreation pool)\<rparr>
                     else tickInfo0);
                  liquidityBefore = LiquidityGross tickInfo1;
                  liquidityAfter = AddLiquidity liquidityBefore liquidityIn;
                  tickInfo2 = tickInfo1\<lparr>LiquidityGross := liquidityAfter\<rparr>;
                  tickInfo3 =
                    (if upper then tickInfo2\<lparr>LiquidityNet := Dec_Sub (LiquidityNet tickInfo2) liquidityIn\<rparr>
                     else tickInfo2\<lparr>LiquidityNet := Dec_Add (LiquidityNet tickInfo2) liquidityIn\<rparr>)
              in case reconcileRecords (PoolIncentivizedLiquidityRecords pool)
                        (TickIncentivizedLiquidityRecords tickInfo3) of
                   Err e \<Rightarrow> (k, Err e)
                 | Panic p \<Rightarrow> (k, Panic p)
                 | Ok reconciled \<Rightarrow>
                    (case updateCommitted liquidityIn upper 0 incentiveIDsCommittedTo reconciled of
                       Err e \<Rightarrow> (k, Err e)
                     | Panic p \<Rightarrow> (k, Panic p)
                     | Ok updated \<Rightarrow>
                        (SetTickInfo k poolId tickIndex
                           (tickInfo3\<lparr>TickIncentivizedLiquidityRecords := updated\<rparr>),
                         Ok ())))))"

subsection \<open>Crossing a tick\<close>

text \<open>
  Lines 130 to 132. The loop variable of a Go \<^verbatim>\<open>range\<close> over a slice of structs is a copy of
  the element (the slice holds structs: line 68 appends a struct literal to it). The
  quotient is computed, which panics on a zero divisor, and assigned to the copy; the
  slice is not written.
\<close>

fun secondsOutsideLoop :: "dec \<Rightarrow> TickIncentivizedLiquidityRecord list \<Rightarrow> unit result" where
  "secondsOutsideLoop seconds [] = Ok ()"
| "secondsOutsideLoop seconds (r # rest) =
     (case Dec_Quo seconds (IncentivizedLiquidityGross r) of
        None \<Rightarrow> Panic DivisionByZero
      | Some q \<Rightarrow>
         (let tickIncentivizedLiquidityRecord = r\<lparr>SecondsPerIncentivizedLiquidityOutside := q\<rparr>
          in secondsOutsideLoop seconds rest))"

text \<open>
  Lines 137 to 139. The element type of the pool's slice is declared in a package that is
  not among the sources: with \<open>byRef = False\<close> the slice holds structs and the loop
  variable is a copy, with \<open>byRef = True\<close> it holds pointers and the assignment writes the
  pool's record. Either way \<^verbatim>\<open>tickInfo.TickIncentivizedLiquidityRecords[i]\<close> is read at the
  index of the pool's record, a panic beyond the end of the tick's slice.
\<close>

fun secondsGlobalLoop ::
  "bool \<Rightarrow> nat \<Rightarrow> PoolIncentivizedLiquidityRecord list \<Rightarrow> TickIncentivizedLiquidityRecord list \<Rightarrow>
   PoolIncentivizedLiquidityRecord list result" where
  "secondsGlobalLoop byRef i [] tickRecords = Ok []"
| "secondsGlobalLoop byRef i (record # rest) tickRecords =
     (if length tickRecords \<le> i then Panic IndexOutOfRange
      else
        (let poolRecord = record\<lparr>SecondsPerIncentivizedLiquidityGlobal :=
                 Dec_Add (SecondsPerIncentivizedLiquidityGlobal record)
                   (SecondsPerIncentivizedLiquidityOutside (tickRecords ! i))\<rparr>
         in case secondsGlobalLoop byRef (Suc i) rest tickRecords of
              Ok done \<Rightarrow> Ok ((if byRef then poolRecord else record) # done)
            | Err e \<Rightarrow> Err e
            | Panic p \<Rightarrow> Panic p))"

text \<open>
  \<^verbatim>\<open>crossTick\<close>. \<open>secondsDec\<close> stands for
  \<^verbatim>\<open>sdk.MustNewDecFromStr(fmt.Sprintf("%f", d.Seconds()))\<close>, the decimal read back from the
  floating-point number of seconds of a duration printed with six digits. The tick is
  written before the pool's loop runs, so a panic there leaves the written tick in the
  returned keeper.
\<close>

definition crossTick ::
  "bool \<Rightarrow> (duration \<Rightarrow> dec) \<Rightarrow> Context \<Rightarrow> Keeper \<Rightarrow> uint64 \<Rightarrow> int64 \<Rightarrow> Keeper \<times> dec result" where
  "crossTick byRef secondsDec ctx k poolId tickIndex =
     (case getTickInfo k poolId tickIndex of
        Err e \<Rightarrow> (k, Err e)
      | Panic p \<Rightarrow> (k, Panic p)
      | Ok tickInfo0 \<Rightarrow>
         (case getPoolById k poolId of
            Err e \<Rightarrow> (k, Err e)
          | Panic p \<Rightarrow> (k, Panic p)
          | Ok pool \<Rightarrow>
             (let newSecondsInactive = Time_Sub (BlockTime ctx) (TimeOfCreation pool);
                  tickInfo = tickInfo0\<lparr>SecondsInactive := newSecondsInactive\<rparr>
              in case secondsOutsideLoop (secondsDec (SecondsInactive tickInfo))
                        (TickIncentivizedLiquidityRecords tickInfo) of
                   Err e \<Rightarrow> (k, Err e)
                 | Panic p \<Rightarrow> (k, Panic p)
                 | Ok u \<Rightarrow>
                    (let k1 = SetTickInfo k poolId tickIndex tickInfo in
                     case secondsGlobalLoop byRef 0 (PoolIncentivizedLiquidityRecords pool)
                            (TickIncentivizedLiquidityRecords tickInfo) of
                       Err e \<Rightarrow> (k1, Err e)
                     | Panic p \<Rightarrow> (k1, Panic p)
                     | Ok poolIncentivizedLiquidityRecords \<Rightarrow>
                        (case setPool k1 (pool\<lparr>PoolIncentivizedLiquidityRecords :=
                                                  poolIncentivizedLiquidityRecords\<rparr>) of
                           Err e \<Rightarrow> (k1, Err e)
                         | Panic p \<Rightarrow> (k1, Panic p)
                         | Ok k2 \<Rightarrow> (k2, Ok (LiquidityNet tickInfo)))))))"

subsection \<open>Position operations and the ledger's net liquidity\<close>

text \<open>
  Modelled from the spec: \<^verbatim>\<open>createPosition\<close> and \<^verbatim>\<open>withdrawPosition\<close> are not among the
  sources. By section 4.4, \<^verbatim>\<open>createPosition\<close> applies the liquidity delta to both boundary
  ticks through \<^verbatim>\<open>initOrUpdateTick\<close>, once with \<open>upper = false\<close> at \<open>lowerTick\<close> and once with
  \<open>upper = true\<close> at \<open>upperTick\<close>, and \<^verbatim>\<open>withdrawPosition\<close> applies the negated delta the same
  way; by section 7 every error aborts the whole operation with no partial state change.
  The functions below are the effect of the two operations on the keeper's tick ledger:
  \<open>liquidityDelta\<close> is the liquidity that the pricing collaborator computed, and
  \<open>otherStepsOk\<close> is the outcome of all the other steps (validation, pricing, custody, the
  position record), none of which writes a tick.
\<close>

definition applyToBothTicks ::
  "Context \<Rightarrow> Keeper \<Rightarrow> uint64 \<Rightarrow> int64 \<Rightarrow> int64 \<Rightarrow> dec \<Rightarrow> uint64 list \<Rightarrow> bool \<Rightarrow> Keeper" where
  "applyToBothTicks ctx k poolId lowerTick upperTick liquidityDelta incentiveIDs otherStepsOk =
     (if \<not> otherStepsOk then k
      else case initOrUpdateTick ctx k poolId lowerTick liquidityDelta False incentiveIDs of
        (k1, Ok u) \<Rightarrow>
          (case initOrUpdateTick ctx k1 poolId upperTick liquidityDelta True incentiveIDs of
             (k2, Ok u) \<Rightarrow> k2
           | (k2, Err e) \<Rightarrow> k
           | (k2, Panic p) \<Rightarrow> k)
      | (k1, Err e) \<Rightarrow> k
      | (k1, Panic p) \<Rightarrow> k)"

definition createPosition ::
  "Context \<Rightarrow> Keeper \<Rightarrow> uint64 \<Rightarrow> int64 \<Rightarrow> int64 \<Rightarrow> dec \<Rightarrow> uint64 list \<Rightarrow> bool \<Rightarrow> Keeper" where
  "createPosition ctx k poolId lowerTick upperTick liquidityDelta incentiveIDs otherStepsOk =
     applyToBothTicks ctx k poolId lowerTick upperTick liquidityDelta incentiveIDs otherStepsOk"

definition withdrawPosition ::
  "Context \<Rightarrow> Keeper \<Rightarrow> uint64 \<Rightarrow> int64 \<Rightarrow> int64 \<Rightarrow> dec \<Rightarrow> uint64 list \<Rightarrow> bool \<Rightarrow> Keeper" where
  "withdrawPosition ctx k poolId lowerTick upperTick liquidityAmount incentiveIDs otherStepsOk =
     applyToBothTicks ctx k poolId lowerTick upperTick (- liquidityAmount) incentiveIDs otherStepsOk"

text \<open>
  A history of the ledger: position operations, each in the context of its own block, and
  tick crossings between them.
\<close>

datatype ledgerOp =
    CreatePosition Context uint64 int64 int64 dec "uint64 list" bool
  | WithdrawPosition Context uint64 int64 int64 dec "uint64 list" bool
  | CrossTick bool "duration \<Rightarrow> dec" Context uint64 int64

fun applyOp :: "Keeper \<Rightarrow> ledgerOp \<Rightarrow> Keeper" where
  "applyOp k (CreatePosition ctx poolId lowerTick upperTick liquidityDelta ids ok) =
     createPosition ctx k poolId lowerTick upperTick liquidityDelta ids ok"
| "applyOp k (WithdrawPosition ctx poolId lowerTick upperTick liquidityAmount ids ok) =
     withdrawPosition ctx k poolId lowerTick upperTick liquidityAmount ids ok"
| "applyOp k (CrossTick byRef secondsDec ctx poolId tickIndex) =
     fst (crossTick byRef secondsDec ctx k poolId tickIndex)"

fun applyOps :: "Keeper \<Rightarrow> ledgerOp list \<Rightarrow> Keeper" where
  "applyOps k [] = k"
| "applyOps k (op # ops) = applyOps (applyOp k op) ops"

text \<open>The initialized ticks of a pool are the tick indices stored under its id.\<close>

definition initializedTicks :: "Keeper \<Rightarrow> uint64 \<Rightarrow> int64 set" where
  "initializedTicks k poolId = {tickIndex. ticks k (poolId, tickIndex) \<noteq> None}"

definition storedNet :: "Keeper \<Rightarrow> uint64 \<Rightarrow> int64 \<Rightarrow> dec" where
  "storedNet k poolId tickIndex =
     (case ticks k (poolId, tickIndex) of
        Some (Decodes tickInfo) \<Rightarrow> LiquidityNet tickInfo
      | Some Undecodable \<Rightarrow> 0
      | None \<Rightarrow> 0)"

definition netSum :: "Keeper \<Rightarrow> uint64 \<Rightarrow> dec" where
  "netSum k poolId = (\<Sum>tickIndex \<in> initializedTicks k poolId. storedNet k poolId tickIndex)"

subsection \<open>The positional update, stated directly\<close>

text \<open>
  The reading of lines 94 to 105 that is compared with \<open>updateCommitted\<close> below: the record
  at index \<open>j\<close> is changed exactly when there is a committed id at index \<open>j\<close> and it equals the
  id of that record; no other index is looked at.
\<close>

definition positionalUpdate_spec ::
  "dec \<Rightarrow> bool \<Rightarrow> uint64 list \<Rightarrow> TickIncentivizedLiquidityRecord list \<Rightarrow>
   TickIncentivizedLiquidityRecord list" where
  "positionalUpdate_spec liquidityIn upper ids tickRecords =
     map (\<lambda>j. if j < length ids \<and> ID (tickRecords ! j) = ids ! j
                then addToRecord liquidityIn upper (tickRecords ! j)
                else tickRecords ! j)
         [0 ..< length tickRecords]"

subsection \<open>Concrete states\<close>

text \<open>
  The states at which the functions are evaluated below: one pool with id 1, created at
  time 0. A decimal \<open>n\<close> is written \<open>n * 10^18\<close>. \<open>wholeSecondsDec\<close> is the conversion of a
  duration to a decimal number of seconds; it agrees with the conversion through a
  floating-point number on a whole number of seconds below \<open>2^53\<close>.
\<close>

definition wholeSecondsDec :: "duration \<Rightarrow> dec" where
  "wholeSecondsDec d = d * 10 ^ 9"

definition blockAt :: "int \<Rightarrow> Context" where
  "blockAt seconds = \<lparr>BlockTime = seconds * 10 ^ 9\<rparr>"

definition poolRecord :: "uint64 \<Rightarrow> dec \<Rightarrow> PoolIncentivizedLiquidityRecord" where
  "poolRecord i g = \<lparr>PID = i, SecondsPerIncentivizedLiquidityGlobal = g\<rparr>"

definition tickRecord :: "uint64 \<Rightarrow> dec \<Rightarrow> dec \<Rightarrow> dec \<Rightarrow> TickIncentivizedLiquidityRecord" where
  "tickRecord i g n out =
     \<lparr>ID = i, IncentivizedLiquidityGross = g, IncentivizedLiquidityNet = n,
      SecondsPerIncentivizedLiquidityOutside = out\<rparr>"

definition tickWith :: "dec \<Rightarrow> dec \<Rightarrow> duration \<Rightarrow> TickIncentivizedLiquidityRecord list \<Rightarrow> TickInfo" where
  "tickWith g n s records =
     \<lparr>LiquidityGross = g, LiquidityNet = n, SecondsInactive = s,
      TickIncentivizedLiquidityRecords = records\<rparr>"

definition poolOne :: "PoolIncentivizedLiquidityRecord list \<Rightarrow> Pool" where
  "poolOne records = \<lparr>Id = 1, TimeOfCreation = 0, PoolIncentivizedLiquidityRecords = records\<rparr>"

definition keeperOf :: "Pool \<Rightarrow> ((uint64 \<times> int64) \<rightharpoonup> storedTick) \<Rightarrow> Keeper" where
  "keeperOf pool ts = \<lparr>pools = [1 \<mapsto> pool], ticks = ts\<rparr>"

text \<open>
  A tick of pool 1 at index 0 with liquidity 2 and one incentive record of gross liquidity
  2 whose stored seconds-per-liquidity value is 1; \<open>s\<close> is its \<open>SecondsInactive\<close> and \<open>g\<close> the
  pool's global accumulator.
\<close>

definition crossedTick :: "duration \<Rightarrow> TickInfo" where
  "crossedTick s =
     tickWith 2000000000000000000 2000000000000000000 s
       [tickRecord 1 2000000000000000000 2000000000000000000 1000000000000000000]"

definition crossKeeper :: "duration \<Rightarrow> dec \<Rightarrow> Keeper" where
  "crossKeeper s g = keeperOf (poolOne [poolRecord 1 g]) [(1, 0) \<mapsto> Decodes (crossedTick s)]"

text \<open>
  A tick as \<open>initOrUpdateTick\<close> leaves it when the position commits to no incentive: the
  pool's incentive 1 has a record of zero gross liquidity.
\<close>

definition freshKeeper :: Keeper where
  "freshKeeper = keeperOf (poolOne [poolRecord 1 0]) Map.empty"

definition freshTickKeeper :: Keeper where
  "freshTickKeeper =
     keeperOf (poolOne [poolRecord 1 0])
       [(1, 0) \<mapsto> Decodes (tickWith 5000000000000000000 5000000000000000000 10000000000
                             [tickRecord 1 0 0 0])]"

text \<open>
  A tick that was written while the pool had the incentive 1 only; \<open>records\<close> is the pool's
  list now, \<open>g\<close> the tick's liquidity.
\<close>

definition grownKeeper :: "PoolIncentivizedLiquidityRecord list \<Rightarrow> dec \<Rightarrow> Keeper" where
  "grownKeeper records g =
     keeperOf (poolOne records) [(1, 0) \<mapsto> Decodes (tickWith g g 0 [tickRecord 1 0 0 0])]"

definition exampleHistory :: "ledgerOp list" where
  "exampleHistory =
     [CreatePosition (blockAt 10) 1 0 10 5000000000000000000 [1] True,
      CreatePosition (blockAt 11) 1 10 20 3000000000000000000 [] True,
      CrossTick False wholeSecondsDec (blockAt 12) 1 10,
      WithdrawPosition (blockAt 13) 1 0 10 1000000000000000000 [1] True]"

definition twoIncentives :: Keeper where
  "twoIncentives = keeperOf (poolOne [poolRecord 1 0, poolRecord 2 0]) Map.empty"

section \<open>Properties\<close>

lemmas example_defs = wholeSecondsDec_def blockAt_def poolRecord_def tickRecord_def poolOne_def
  keeperOf_def tickWith_def crossedTick_def crossKeeper_def freshKeeper_def freshTickKeeper_def
  grownKeeper_def twoIncentives_def

lemmas evaluation_defs = crossTick_def initOrUpdateTick_def getTickInfo_def store_Get_def
  poolExists_def getPoolById_def setPool_def SetTickInfo_def reconcileRecords_def
  newTickRecord_def addToRecord_def AddLiquidity_def Dec_Add_def Dec_Sub_def Dec_Quo_def
  chopPrecisionAndRound_def precisionReuse_def ZeroDec_def Time_Sub_def zeroTickInfo_def
  emptyTickInfo_def signed_divide_int_def Let_def

subsection \<open>The net liquidity of a pool\<close>

lemma initializedTicks_SetTickInfo:
  "initializedTicks (SetTickInfo k p t ti) q =
     (if q = p then insert t (initializedTicks k p) else initializedTicks k q)"
  by (auto simp: initializedTicks_def SetTickInfo_def)

lemma storedNet_SetTickInfo:
  "storedNet (SetTickInfo k p t ti) q u =
     (if q = p \<and> u = t then LiquidityNet ti else storedNet k q u)"
  by (simp add: storedNet_def SetTickInfo_def)

lemma storedNet_uninitialized:
  "t \<notin> initializedTicks k p \<Longrightarrow> storedNet k p t = 0"
  by (simp add: initializedTicks_def storedNet_def)

lemma netSum_ticks_cong: "ticks k' = ticks k \<Longrightarrow> netSum k' q = netSum k q"
  by (simp add: netSum_def initializedTicks_def storedNet_def)

text \<open>
  Writing a tick replaces its contribution to the sum; a tick that was not initialized
  contributed nothing.
\<close>

lemma netSum_SetTickInfo:
  "netSum (SetTickInfo k p t ti) q =
     (if q = p then netSum k p - storedNet k p t + LiquidityNet ti else netSum k q)"
proof (cases "q = p")
  case False
  then show ?thesis
    by (simp add: netSum_def initializedTicks_SetTickInfo storedNet_SetTickInfo)
next
  case True
  let ?A = "initializedTicks k p"
  let ?k' = "SetTickInfo k p t ti"
  have fin: "finite (?A - {t})" by simp
  have "netSum ?k' p = (\<Sum>u \<in> insert t (?A - {t}). storedNet ?k' p u)"
    by (simp add: netSum_def initializedTicks_SetTickInfo)
  also have "\<dots> = storedNet ?k' p t + (\<Sum>u \<in> ?A - {t}. storedNet ?k' p u)"
    using fin by (subst sum.insert) auto
  also have "(\<Sum>u \<in> ?A - {t}. storedNet ?k' p u) = (\<Sum>u \<in> ?A - {t}. storedNet k p u)"
    by (rule sum.cong) (auto simp: storedNet_SetTickInfo)
  finally have new: "netSum ?k' p = LiquidityNet ti + (\<Sum>u \<in> ?A - {t}. storedNet k p u)"
    by (simp add: storedNet_SetTickInfo)
  have old: "netSum k p = storedNet k p t + (\<Sum>u \<in> ?A - {t}. storedNet k p u)"
  proof (cases "t \<in> ?A")
    case True
    then show ?thesis unfolding netSum_def by (simp add: sum.remove)
  next
    case False
    then show ?thesis unfolding netSum_def by (simp add: storedNet_uninitialized)
  qed
  from new old True show ?thesis by simp
qed

lemma getTickInfo_Ok_net:
  "getTickInfo k p t = Ok ti \<Longrightarrow> LiquidityNet ti = storedNet k p t"
  by (auto simp: getTickInfo_def store_Get_def storedNet_def zeroTickInfo_def ZeroDec_def
           split: if_splits option.splits storedTick.splits)

lemma initOrUpdateTick_not_Ok:
  "initOrUpdateTick ctx k p t d upper ids = (k', r) \<Longrightarrow> r \<noteq> Ok () \<Longrightarrow> k' = k"
  by (auto simp: initOrUpdateTick_def Let_def split: if_splits result.splits)

text \<open>
  The sign convention of lines 54 to 58: a successful call writes the tick with its net
  liquidity raised by the delta at a lower boundary and lowered by it at an upper one.
\<close>

lemma initOrUpdateTick_Ok:
  assumes "initOrUpdateTick ctx k p t d upper ids = (k', Ok u)"
  shows "\<exists>ti. k' = SetTickInfo k p t ti \<and>
              LiquidityNet ti = storedNet k p t + (if upper then - d else d)"
  using assms
  by (auto simp: initOrUpdateTick_def Let_def Dec_Add_def Dec_Sub_def
           dest!: getTickInfo_Ok_net split: if_splits result.splits)

lemma netSum_initOrUpdateTick:
  assumes "initOrUpdateTick ctx k p t d upper ids = (k', Ok u)"
  shows "netSum k' q = netSum k q + (if q = p then (if upper then - d else d) else 0)"
proof -
  from initOrUpdateTick_Ok [OF assms] obtain ti where
    "k' = SetTickInfo k p t ti" "LiquidityNet ti = storedNet k p t + (if upper then - d else d)"
    by blast
  then show ?thesis by (simp add: netSum_SetTickInfo)
qed

lemma netSum_applyToBothTicks:
  "netSum (applyToBothTicks ctx k p lo hi d ids ok) q = netSum k q"
  by (auto simp: applyToBothTicks_def netSum_initOrUpdateTick split: prod.splits result.splits)

lemma crossTick_ticks:
  "crossTick byRef sd ctx k p t = (k', r) \<Longrightarrow>
     k' = k \<or> (\<exists>ti. ticks k' = (ticks k)((p, t) \<mapsto> Decodes ti) \<and> LiquidityNet ti = storedNet k p t)"
  by (auto simp: crossTick_def Let_def setPool_def SetTickInfo_def
           dest!: getTickInfo_Ok_net split: if_splits result.splits)

lemma netSum_crossTick:
  "netSum (fst (crossTick byRef sd ctx k p t)) q = netSum k q"
proof -
  obtain k' r where c: "crossTick byRef sd ctx k p t = (k', r)"
    by (cases "crossTick byRef sd ctx k p t")
  from crossTick_ticks [OF c] show ?thesis
  proof
    assume "k' = k"
    with c show ?thesis by simp
  next
    assume "\<exists>ti. ticks k' = (ticks k)((p, t) \<mapsto> Decodes ti) \<and> LiquidityNet ti = storedNet k p t"
    then obtain ti where
      t: "ticks k' = ticks (SetTickInfo k p t ti)" "LiquidityNet ti = storedNet k p t"
      by (auto simp: SetTickInfo_def)
    have "netSum k' q = netSum (SetTickInfo k p t ti) q"
      by (rule netSum_ticks_cong) (rule t)
    with t c show ?thesis by (simp add: netSum_SetTickInfo)
  qed
qed

lemma netSum_applyOp: "netSum (applyOp k op) q = netSum k q"
  by (cases op)
     (simp_all add: createPosition_def withdrawPosition_def netSum_applyToBothTicks netSum_crossTick)

lemma netSum_applyOps: "netSum (applyOps k ops) q = netSum k q"
  by (induction ops arbitrary: k) (simp_all add: netSum_applyOp)

lemma storedNet_initOrUpdateTick:
  assumes "initOrUpdateTick ctx k p t d upper ids = (k', Ok u)"
  shows "storedNet k' p t = storedNet k p t + (if upper then - d else d)"
proof -
  from initOrUpdateTick_Ok [OF assms] obtain ti where
    "k' = SetTickInfo k p t ti" "LiquidityNet ti = storedNet k p t + (if upper then - d else d)"
    by blast
  then show ?thesis by (simp add: storedNet_SetTickInfo)
qed

text \<open>
  Claim C1. The sum of \<open>LiquidityNet\<close> over the initialized ticks of a pool is an invariant
  of the ledger: a pool whose sum is zero, as it is while no tick is initialized, has the
  sum zero after every \<open>createPosition\<close> and \<open>withdrawPosition\<close> of any history (tick
  crossings included). The reason is the sign convention of \<open>initOrUpdateTick\<close>: a
  successful call adds the delta to the net liquidity of the tick when \<open>upper\<close> is false
  and subtracts it when \<open>upper\<close> is true, and a position operation makes one call of each
  kind with the same delta, or none.
\<close>

theorem C1_net_liquidity_sums_to_zero:
  "(netSum k poolId = 0 \<longrightarrow> netSum (applyOps k ops) poolId = 0)
   \<and> (initOrUpdateTick ctx k poolId tickIndex liquidityIn upper ids = (k', Ok u)
        \<longrightarrow> storedNet k' poolId tickIndex
              = storedNet k poolId tickIndex + (if upper then - liquidityIn else liquidityIn))"
  by (simp add: netSum_applyOps storedNet_initOrUpdateTick)

text \<open>
  At a pool with no tick a position on \<open>[0, 10]\<close>, one on \<open>[10, 20]\<close>, a crossing of tick 10
  and a partial withdrawal leave the sum zero, with net liquidity \<open>-1\<close> at tick 10.
\<close>

theorem C1_net_liquidity_sums_to_zero_witness:
  "netSum freshKeeper 1 = 0
   \<and> netSum (applyOps freshKeeper exampleHistory) 1 = 0
   \<and> storedNet (applyOps freshKeeper exampleHistory) 1 10 = - 1000000000000000000
   \<and> initOrUpdateTick (blockAt 10) freshKeeper 1 0 5000000000000000000 False []
       = (freshTickKeeper, Ok ())
   \<and> storedNet freshTickKeeper 1 0 = storedNet freshKeeper 1 0 + 5000000000000000000"
proof -
  have h: "netSum freshKeeper 1 = 0"
    by (simp add: netSum_def initializedTicks_def keeperOf_def freshKeeper_def)
  have s: "storedNet (applyOps freshKeeper exampleHistory) 1 10 = - 1000000000000000000"
    by (simp add: exampleHistory_def evaluation_defs example_defs applyToBothTicks_def
                  createPosition_def withdrawPosition_def storedNet_def)
  have i: "initOrUpdateTick (blockAt 10) freshKeeper 1 0 5000000000000000000 False []
             = (freshTickKeeper, Ok ())"
    by (simp add: evaluation_defs example_defs)
  from h s i
    C1_net_liquidity_sums_to_zero
      [of freshKeeper 1 exampleHistory "blockAt 10" 0 5000000000000000000 False "[]"
          freshTickKeeper "()"]
  show ?thesis by simp
qed

subsection \<open>Crossing a tick\<close>

text \<open>
  Claim C2. Evaluation of \<open>crossTick\<close> ten seconds after the creation of the pool, at a tick
  whose incentive record has gross liquidity 2 and a stored seconds-per-liquidity value
  of 1: the call succeeds and returns the net liquidity, the tick is written with the new
  \<open>SecondsInactive\<close>, and its incentive record still holds the value 1, whereas the
  quotient of the ten seconds by the gross liquidity is 5. The quotient is assigned to
  the loop variable, a copy of the record.
\<close>

theorem C2_crossTick_keeps_stored_seconds_outside:
  "ticks (fst (crossTick byRef wholeSecondsDec (blockAt 10) (crossKeeper 0 0) 1 0)) (1, 0)
     = Some (Decodes (crossedTick 10000000000))
   \<and> snd (crossTick byRef wholeSecondsDec (blockAt 10) (crossKeeper 0 0) 1 0)
     = Ok 2000000000000000000
   \<and> map SecondsPerIncentivizedLiquidityOutside
       (TickIncentivizedLiquidityRecords (crossedTick 10000000000)) = [1000000000000000000]
   \<and> Dec_Quo (wholeSecondsDec 10000000000) 2000000000000000000 = Some 5000000000000000000"
  by (simp add: evaluation_defs example_defs)

text \<open>
  Claim C3. Evaluation of \<open>crossTick\<close> at the same state, where the pool's global
  accumulator is 0 and the freshly computed quotient is 5. When the pool's slice holds
  structs the persisted accumulator is still 0; when it holds pointers it is 1, the value
  that was stored in the tick's record before the call. In neither case is it 5.
\<close>

theorem C3_crossTick_global_accumulator:
  "fst (crossTick False wholeSecondsDec (blockAt 10) (crossKeeper 0 0) 1 0)
     = crossKeeper 10000000000 0
   \<and> fst (crossTick True wholeSecondsDec (blockAt 10) (crossKeeper 0 0) 1 0)
     = crossKeeper 10000000000 1000000000000000000
   \<and> Dec_Quo (wholeSecondsDec 10000000000) 2000000000000000000 = Some 5000000000000000000
   \<and> Dec_Add 0 5000000000000000000 = 5000000000000000000"
  by (simp add: evaluation_defs example_defs)

text \<open>
  Claim C4. A position that commits to no incentive, created through \<open>initOrUpdateTick\<close> in
  a pool with one incentive, leaves a tick whose incentive record has zero gross
  liquidity. Crossing that tick panics in the quotient, whatever the representation of
  the pool's records and the conversion of the duration; it does not return an error and
  nothing is written.
\<close>

theorem C4_crossTick_panics_on_zero_gross:
  "initOrUpdateTick (blockAt 10) freshKeeper 1 0 5000000000000000000 False []
     = (freshTickKeeper, Ok ())
   \<and> crossTick byRef secondsDec (blockAt 20) freshTickKeeper 1 0
     = (freshTickKeeper, Panic DivisionByZero)"
  by (simp add: evaluation_defs example_defs)

text \<open>
  Claim C9. For a pool id without a pool \<open>crossTick\<close> returns the \<open>PoolNotFoundError\<close> of
  the tick lookup, and the keeper (the tick ledger and the pools with their incentive
  accumulators) is returned as it was.
\<close>

theorem C9_crossTick_pool_not_found:
  "\<not> poolExists k poolId \<Longrightarrow>
     crossTick byRef secondsDec ctx k poolId tickIndex = (k, Err (PoolNotFoundError poolId))"
  by (simp add: crossTick_def getTickInfo_def)

theorem C9_crossTick_pool_not_found_witness:
  "\<not> poolExists (crossKeeper 0 0) 2
   \<and> crossTick False wholeSecondsDec (blockAt 10) (crossKeeper 0 0) 2 0
       = (crossKeeper 0 0, Err (PoolNotFoundError 2))"
proof -
  have h: "\<not> poolExists (crossKeeper 0 0) 2"
    by (simp add: poolExists_def keeperOf_def crossKeeper_def)
  from h C9_crossTick_pool_not_found [OF h] show ?thesis by blast
qed

subsection \<open>Reading a tick\<close>

text \<open>
  Claim C8. For an existing pool and a tick index with nothing stored, \<open>getTickInfo\<close>
  returns the record with zero gross and net liquidity and no error; it returns a
  \<open>PoolNotFoundError\<close> exactly when the pool does not exist, and then for the id that was
  asked for.
\<close>

theorem C8_getTickInfo_default_and_not_found:
  "(poolExists k poolId \<and> ticks k (poolId, tickIndex) = None
      \<longrightarrow> getTickInfo k poolId tickIndex
            = Ok \<lparr>LiquidityGross = 0, LiquidityNet = 0, SecondsInactive = 0,
                  TickIncentivizedLiquidityRecords = []\<rparr>)
   \<and> ((\<exists>p. getTickInfo k poolId tickIndex = Err (PoolNotFoundError p)) \<longleftrightarrow> \<not> poolExists k poolId)
   \<and> (\<not> poolExists k poolId \<longrightarrow> getTickInfo k poolId tickIndex = Err (PoolNotFoundError poolId))"
  by (auto simp: getTickInfo_def store_Get_def zeroTickInfo_def ZeroDec_def
           split: option.splits storedTick.splits)

theorem C8_getTickInfo_default_and_not_found_witness:
  "poolExists freshKeeper 1
   \<and> ticks freshKeeper (1, 7) = None
   \<and> getTickInfo freshKeeper 1 7
        = Ok \<lparr>LiquidityGross = 0, LiquidityNet = 0, SecondsInactive = 0,
              TickIncentivizedLiquidityRecords = []\<rparr>
   \<and> \<not> poolExists freshKeeper 2
   \<and> getTickInfo freshKeeper 2 7 = Err (PoolNotFoundError 2)"
  using C8_getTickInfo_default_and_not_found [of freshKeeper 1 7]
        C8_getTickInfo_default_and_not_found [of freshKeeper 2 7]
  by (simp add: poolExists_def keeperOf_def freshKeeper_def)

subsection \<open>Validation of a tick range\<close>







subsection \<open>The incentive records of a tick\<close>

text \<open>
  Claim C7. Evaluation of \<open>initOrUpdateTick\<close> at a tick that holds a record for incentive
  1 only. When the pool has the incentives 1 and 2, the call panics on the index 1 of the
  tick's list and nothing is written: the list is not extended by a record for incentive
  2. When the pool has the incentive 2 only, the lists have the same length, no branch
  runs, and the tick is written with its record for incentive 1 alone.
\<close>

theorem C7_reconciliation_does_not_extend:
  "initOrUpdateTick (blockAt 10) (grownKeeper [poolRecord 1 0, poolRecord 2 0] 5000000000000000000)
       1 0 1000000000000000000 False []
     = (grownKeeper [poolRecord 1 0, poolRecord 2 0] 5000000000000000000, Panic IndexOutOfRange)
   \<and> initOrUpdateTick (blockAt 10) (grownKeeper [poolRecord 2 0] 5000000000000000000)
       1 0 1000000000000000000 False []
     = (grownKeeper [poolRecord 2 0] 6000000000000000000, Ok ())"
  by (simp add: evaluation_defs example_defs)

lemma updateCommitted_nth:
  "i + length ids \<le> length recs \<Longrightarrow>
     \<exists>recs'. updateCommitted d upper i ids recs = Ok recs' \<and> length recs' = length recs \<and>
       (\<forall>j < length recs. recs' ! j =
          (if i \<le> j \<and> j < i + length ids \<and> ID (recs ! j) = ids ! (j - i)
           then addToRecord d upper (recs ! j) else recs ! j))"
proof (induction ids arbitrary: i recs)
  case Nil
  then show ?case by auto
next
  case (Cons x xs)
  let ?recs1 = "if ID (recs ! i) = x then recs[i := addToRecord d upper (recs ! i)] else recs"
  from Cons.prems have i: "i < length recs" and le: "Suc i + length xs \<le> length ?recs1" by auto
  from Cons.IH [OF le] obtain recs' where
    r: "updateCommitted d upper (Suc i) xs ?recs1 = Ok recs'" "length recs' = length ?recs1"
       "\<forall>j < length ?recs1. recs' ! j =
          (if Suc i \<le> j \<and> j < Suc i + length xs \<and> ID (?recs1 ! j) = xs ! (j - Suc i)
           then addToRecord d upper (?recs1 ! j) else ?recs1 ! j)"
    by blast
  have run: "updateCommitted d upper i (x # xs) recs = Ok recs'"
    using i r(1) by (simp split: if_splits)
  have len: "length recs' = length recs" using r(2) by (simp split: if_splits)
  have "recs' ! j =
          (if i \<le> j \<and> j < i + length (x # xs) \<and> ID (recs ! j) = (x # xs) ! (j - i)
           then addToRecord d upper (recs ! j) else recs ! j)" if j: "j < length recs" for j
  proof -
    from j have j1: "j < length ?recs1" by (simp split: if_splits)
    note eq = r(3) [rule_format, OF j1]
    show ?thesis
    proof (cases "j = i")
      case True
      with eq i show ?thesis by (simp split: if_splits)
    next
      case False
      then have same: "?recs1 ! j = recs ! j" by (simp split: if_splits)
      show ?thesis
      proof (cases "i < j")
        case True
        then have "(x # xs) ! (j - i) = xs ! (j - Suc i)" by (simp add: nth_Cons')
        with True eq same show ?thesis by (auto simp: Suc_le_eq)
      next
        case below: False
        with False have "j < i" by simp
        with eq same show ?thesis by simp
      qed
    qed
  qed
  with run len show ?case by blast
qed

lemma updateCommitted_positional:
  assumes "length ids \<le> length recs"
  shows "updateCommitted d upper 0 ids recs = Ok (positionalUpdate_spec d upper ids recs)"
proof -
  from assms have "0 + length ids \<le> length recs" by simp
  from updateCommitted_nth [OF this] obtain recs' where
    r: "updateCommitted d upper 0 ids recs = Ok recs'" "length recs' = length recs"
       "\<forall>j < length recs. recs' ! j =
          (if 0 \<le> j \<and> j < 0 + length ids \<and> ID (recs ! j) = ids ! (j - 0)
           then addToRecord d upper (recs ! j) else recs ! j)"
    by blast
  have "recs' = positionalUpdate_spec d upper ids recs"
    by (rule nth_equalityI) (use r in \<open>simp_all add: positionalUpdate_spec_def\<close>)
  with r(1) show ?thesis by simp
qed

text \<open>The loop does not panic only if every committed id has a record at its index.\<close>

lemma updateCommitted_Ok_length:
  "updateCommitted d upper i ids recs = Ok recs' \<Longrightarrow> ids = [] \<or> i + length ids \<le> length recs"
proof (induction ids arbitrary: i recs)
  case Nil
  then show ?case by simp
next
  case (Cons x xs)
  from Cons.prems have i: "i < length recs" by (simp split: if_splits)
  let ?recs1 = "if ID (recs ! i) = x then recs[i := addToRecord d upper (recs ! i)] else recs"
  from Cons.prems i have "updateCommitted d upper (Suc i) xs ?recs1 = Ok recs'"
    by (simp split: if_splits)
  from Cons.IH [OF this] i show ?case by (auto split: if_splits)
qed

lemma initOrUpdateTick_positional:
  assumes "initOrUpdateTick ctx k poolId tickIndex liquidityIn upper ids = (k', Ok u)"
  shows "\<exists>tickInfo0 pool reconciled tickInfo.
           getTickInfo k poolId tickIndex = Ok tickInfo0
         \<and> getPoolById k poolId = Ok pool
         \<and> reconcileRecords (PoolIncentivizedLiquidityRecords pool)
              (TickIncentivizedLiquidityRecords tickInfo0) = Ok reconciled
         \<and> length ids \<le> length reconciled
         \<and> ticks k' (poolId, tickIndex) = Some (Decodes tickInfo)
         \<and> TickIncentivizedLiquidityRecords tickInfo
             = positionalUpdate_spec liquidityIn upper ids reconciled"
proof -
  from assms obtain tickInfo0 pool reconciled updated tickInfo3 where
    a: "getTickInfo k poolId tickIndex = Ok tickInfo0" "getPoolById k poolId = Ok pool"
       "reconcileRecords (PoolIncentivizedLiquidityRecords pool)
              (TickIncentivizedLiquidityRecords tickInfo0) = Ok reconciled"
       "updateCommitted liquidityIn upper 0 ids reconciled = Ok updated"
       "k' = SetTickInfo k poolId tickIndex (tickInfo3\<lparr>TickIncentivizedLiquidityRecords := updated\<rparr>)"
    by (auto simp: initOrUpdateTick_def Let_def split: if_splits result.splits)
  from updateCommitted_Ok_length [OF a(4)] have len: "length ids \<le> length reconciled" by auto
  from updateCommitted_positional [OF len, of liquidityIn upper] a(4)
  have "updated = positionalUpdate_spec liquidityIn upper ids reconciled" by simp
  with a len show ?thesis by (simp add: SetTickInfo_def)
qed

text \<open>
  Claim C10. The loop of lines 94 to 105 is the positional update: on a list that has a
  record for every committed index it returns, with no error, the list in which the
  record at index \<open>j\<close> has the liquidity applied exactly when the committed id at the same
  index \<open>j\<close> equals its id, and every other record, also one whose id is committed at
  another index, is as it was. When \<open>initOrUpdateTick\<close> succeeds, the records of the
  written tick are this update of the reconciled records.
\<close>

theorem C10_incentive_update_is_positional:
  "(length ids \<le> length tickRecords
      \<longrightarrow> updateCommitted liquidityIn upper 0 ids tickRecords
            = Ok (positionalUpdate_spec liquidityIn upper ids tickRecords))
   \<and> (initOrUpdateTick ctx k poolId tickIndex liquidityIn upper ids = (k', Ok u)
      \<longrightarrow> (\<exists>tickInfo0 pool reconciled tickInfo.
             getTickInfo k poolId tickIndex = Ok tickInfo0
           \<and> getPoolById k poolId = Ok pool
           \<and> reconcileRecords (PoolIncentivizedLiquidityRecords pool)
                (TickIncentivizedLiquidityRecords tickInfo0) = Ok reconciled
           \<and> length ids \<le> length reconciled
           \<and> ticks k' (poolId, tickIndex) = Some (Decodes tickInfo)
           \<and> TickIncentivizedLiquidityRecords tickInfo
               = positionalUpdate_spec liquidityIn upper ids reconciled))"
  using updateCommitted_positional initOrUpdateTick_positional by blast

text \<open>
  In a pool with the incentives 1 and 2, a position that commits to \<open>[2, 1]\<close> updates no
  record of a new tick, and one that commits to \<open>[1]\<close> updates the record of incentive 1.
\<close>

theorem C10_incentive_update_is_positional_witness:
  "length [2, 1 :: uint64] \<le> length [tickRecord 1 0 0 0, tickRecord 2 0 0 0]
   \<and> updateCommitted 5000000000000000000 False 0 [2, 1] [tickRecord 1 0 0 0, tickRecord 2 0 0 0]
       = Ok [tickRecord 1 0 0 0, tickRecord 2 0 0 0]
   \<and> initOrUpdateTick (blockAt 10) twoIncentives 1 0 5000000000000000000 False [2, 1]
       = (keeperOf (poolOne [poolRecord 1 0, poolRecord 2 0])
            [(1, 0) \<mapsto> Decodes (tickWith 5000000000000000000 5000000000000000000 10000000000
                                  [tickRecord 1 0 0 0, tickRecord 2 0 0 0])], Ok ())
   \<and> positionalUpdate_spec 5000000000000000000 False [1] [tickRecord 1 0 0 0, tickRecord 2 0 0 0]
       = [tickRecord 1 5000000000000000000 5000000000000000000 0, tickRecord 2 0 0 0]
   \<and> (\<exists>tickInfo0 pool reconciled tickInfo.
           getTickInfo twoIncentives 1 0 = Ok tickInfo0
         \<and> getPoolById twoIncentives 1 = Ok pool
         \<and> reconcileRecords (PoolIncentivizedLiquidityRecords pool)
              (TickIncentivizedLiquidityRecords tickInfo0) = Ok reconciled
         \<and> length [2, 1 :: uint64] \<le> length reconciled
         \<and> ticks (keeperOf (poolOne [poolRecord 1 0, poolRecord 2 0])
                   [(1, 0) \<mapsto> Decodes (tickWith 5000000000000000000 5000000000000000000 10000000000
                                         [tickRecord 1 0 0 0, tickRecord 2 0 0 0])]) (1, 0)
             = Some (Decodes tickInfo)
         \<and> TickIncentivizedLiquidityRecords tickInfo
             = positionalUpdate_spec 5000000000000000000 False [2, 1] reconciled)"
proof -
  have l: "length [2, 1 :: uint64] \<le> length [tickRecord 1 0 0 0, tickRecord 2 0 0 0]"
    by simp
  have h: "initOrUpdateTick (blockAt 10) twoIncentives 1 0 5000000000000000000 False [2, 1]
     = (keeperOf (poolOne [poolRecord 1 0, poolRecord 2 0])
          [(1, 0) \<mapsto> Decodes (tickWith 5000000000000000000 5000000000000000000 10000000000
                                [tickRecord 1 0 0 0, tickRecord 2 0 0 0])], Ok ())"
    by (simp add: evaluation_defs example_defs)
  have p1: "positionalUpdate_spec 5000000000000000000 False [2, 1]
              [tickRecord 1 0 0 0, tickRecord 2 0 0 0]
            = [tickRecord 1 0 0 0, tickRecord 2 0 0 0]"
    by (simp add: positionalUpdate_spec_def tickRecord_def upt_rec)
  have p2: "positionalUpdate_spec 5000000000000000000 False [1]
              [tickRecord 1 0 0 0, tickRecord 2 0 0 0]
            = [tickRecord 1 5000000000000000000 5000000000000000000 0, tickRecord 2 0 0 0]"
    by (simp add: positionalUpdate_spec_def tickRecord_def upt_rec addToRecord_def
                  AddLiquidity_def Dec_Add_def)
  note c = C10_incentive_update_is_positional
             [of "[2, 1]" "[tickRecord 1 0 0 0, tickRecord 2 0 0 0]" 5000000000000000000 False
                 "blockAt 10" twoIncentives 1 0
                 "keeperOf (poolOne [poolRecord 1 0, poolRecord 2 0])
                    [(1, 0) \<mapsto> Decodes (tickWith 5000000000000000000 5000000000000000000
                                          10000000000 [tickRecord 1 0 0 0, tickRecord 2 0 0 0])]"
                 "()"]
  from c l p1 have u: "updateCommitted 5000000000000000000 False 0 [2, 1]
                         [tickRecord 1 0 0 0, tickRecord 2 0 0 0]
                       = Ok [tickRecord 1 0 0 0, tickRecord 2 0 0 0]"
    by simp
  from c h have e: "\<exists>tickInfo0 pool reconciled tickInfo.
           getTickInfo twoIncentives 1 0 = Ok tickInfo0
         \<and> getPoolById twoIncentives 1 = Ok pool
         \<and> reconcileRecords (PoolIncentivizedLiquidityRecords pool)
              (TickIncentivizedLiquidityRecords tickInfo0) = Ok reconciled
         \<and> length [2, 1 :: uint64] \<le> length reconciled
         \<and> ticks (keeperOf (poolOne [poolRecord 1 0, poolRecord 2 0])
                   [(1, 0) \<mapsto> Decodes (tickWith 5000000000000000000 5000000000000000000 10000000000
                                         [tickRecord 1 0 0 0, tickRecord 2 0 0 0])]) (1, 0)
             = Some (Decodes tickInfo)
         \<and> TickIncentivizedLiquidityRecords tickInfo
             = positionalUpdate_spec 5000000000000000000 False [2, 1] reconciled"
    by blast
  from l u h p2 e show ?thesis by blast
qed

end
